theory Spec2Isabelle
  imports Complex_Main "HOL-Library.Sublist"
begin

section \<open>Strings\<close>

text \<open>
  Column labels are Python \<open>str\<close> values, modelled as \<open>string\<close>. The model covers ASCII
  labels: \<open>str.strip\<close> removes the ASCII characters Python counts as whitespace (tab to
  carriage return, the four separators, the space) and \<open>str.lower\<close> maps
  \<open>A\<close>..\<open>Z\<close> to \<open>a\<close>..\<open>z\<close>.
\<close>

definition is_space :: "char \<Rightarrow> bool" where
  "is_space c = (of_char c \<in> {9, 10, 11, 12, 13, 28, 29, 30, 31, 32 :: nat})"

text \<open>\<^verbatim>\<open>s.strip()\<close>\<close>

definition strip :: "string \<Rightarrow> string" where
  "strip s = rev (dropWhile is_space (rev (dropWhile is_space s)))"

text \<open>\<^verbatim>\<open>s.replace(" ", "_")\<close>\<close>

definition replace_space :: "string \<Rightarrow> string" where
  "replace_space s = map (\<lambda>c. if c = CHR '' '' then CHR ''_'' else c) s"

definition lower_char :: "char \<Rightarrow> char" where
  "lower_char c =
     (if 65 \<le> (of_char c :: nat) \<and> (of_char c :: nat) \<le> 90
      then char_of (of_char c + 32 :: nat) else c)"

text \<open>\<^verbatim>\<open>s.lower()\<close>\<close>

definition lower :: "string \<Rightarrow> string" where
  "lower s = map lower_char s"

text \<open>\<^verbatim>\<open>t in s\<close> for two strings: \<open>t\<close> occurs in \<open>s\<close> as a contiguous run.\<close>

fun contains :: "string \<Rightarrow> string \<Rightarrow> bool" where
  "contains t [] = (t = [])"
| "contains t (c # cs) = (prefix t (c # cs) \<or> contains t cs)"

section \<open>Data frames\<close>

text \<open>
  A pandas \<open>DataFrame\<close> as the script uses it: column labels in order (pandas allows a
  label to repeat), one dtype per column, and the rows, each a list of cells aligned with
  the labels. \<open>NaN\<close> stands for every missing value (\<open>NaN\<close>, \<open>None\<close>, \<open>NaT\<close>). Numbers
  are only ever compared, never computed with, so \<open>int64\<close> and \<open>float64\<close> values are
  rationals; a timestamp is its position on the time line.
\<close>

datatype dtype = Object | Int64 | Float64 | Bool | Datetime64

datatype cell = NaN | Str string | Num rat | Flag bool | Timestamp int

record frame =
  columns :: "string list"
  dtypes :: "dtype list"
  rows :: "cell list list"

definition isnull :: "cell \<Rightarrow> bool" where
  "isnull c = (c = NaN)"

section \<open>Cleaning (dashboard-filters.py, step 3)\<close>

text \<open>\<^verbatim>\<open>df.columns.str.strip().str.replace(" ", "_").str.lower()\<close>, for one label.\<close>

definition normalize :: "string \<Rightarrow> string" where
  "normalize col = lower (replace_space (strip col))"

text \<open>
  \<^verbatim>\<open>df.columns = ...\<close> and \<^verbatim>\<open>df.dropna(how="all", inplace=True)\<close>: the labels are
  replaced by their normalized forms and every row whose cells are all missing is removed.
\<close>

definition cleaning :: "frame \<Rightarrow> frame" where
  "cleaning df =
     df\<lparr>columns := map normalize (columns df),
        rows := filter (\<lambda>r. \<not> list_all isnull r) (rows df)\<rparr>"

section \<open>Column roles\<close>

text \<open>The list comprehensions of lines 38 to 41 and 95 to 96, over the cleaned labels.\<close>

definition possible_income :: "string list \<Rightarrow> string list" where
  "possible_income cols = filter (\<lambda>col. contains ''income'' col) cols"

definition possible_gender :: "string list \<Rightarrow> string list" where
  "possible_gender cols = filter (\<lambda>col. contains ''gender'' col) cols"

definition possible_neigh :: "string list \<Rightarrow> string list" where
  "possible_neigh cols =
     filter (\<lambda>col. contains ''neigh'' col \<or> contains ''municipality'' col) cols"

definition possible_time :: "string list \<Rightarrow> string list" where
  "possible_time cols =
     filter (\<lambda>col. contains ''year'' col \<or> contains ''month'' col \<or> contains ''date'' col) cols"

definition lat_cols :: "string list \<Rightarrow> string list" where
  "lat_cols cols = filter (\<lambda>col. contains ''lat'' (lower col)) cols"

definition lon_cols :: "string list \<Rightarrow> string list" where
  "lon_cols cols =
     filter (\<lambda>col. contains ''lon'' (lower col) \<or> contains ''lng'' (lower col)) cols"

text \<open>
  \<^verbatim>\<open>possible[0]\<close> under the guard \<^verbatim>\<open>if possible:\<close>: the first candidate, or no column
  when there is none.
\<close>

definition first_of :: "string list \<Rightarrow> string option" where
  "first_of possible = (case possible of [] \<Rightarrow> None | col # _ \<Rightarrow> Some col)"

datatype role = Income | Gender | Region | Time | Latitude | Longitude

text \<open>
  The role map the script works with: each role's column is the first candidate of the
  role's comprehension over the cleaned frame's labels.
\<close>

definition infer_roles :: "frame \<Rightarrow> role \<Rightarrow> string option" where
  "infer_roles table \<rho> =
     (let cols = columns (cleaning table) in
      case \<rho> of
        Income \<Rightarrow> first_of (possible_income cols)
      | Gender \<Rightarrow> first_of (possible_gender cols)
      | Region \<Rightarrow> first_of (possible_neigh cols)
      | Time \<Rightarrow> first_of (possible_time cols)
      | Latitude \<Rightarrow> first_of (lat_cols cols)
      | Longitude \<Rightarrow> first_of (lon_cols cols))"

text \<open>The specification's table of trigger substrings, role by role.\<close>

fun triggers :: "role \<Rightarrow> string list" where
  "triggers Income = [''income'']"
| "triggers Gender = [''gender'']"
| "triggers Region = [''neigh'', ''municipality'']"
| "triggers Time = [''year'', ''month'', ''date'']"
| "triggers Latitude = [''lat'']"
| "triggers Longitude = [''lon'', ''lng'']"

text \<open>A label has a trigger of the role as a contiguous substring.\<close>

definition has_trigger :: "role \<Rightarrow> string \<Rightarrow> bool" where
  "has_trigger \<rho> name = list_ex (\<lambda>t. sublist t name) (triggers \<rho>)"

section \<open>pandas operations the script calls\<close>

text \<open>
  \<^verbatim>\<open>df[col]\<close> is a \<open>Series\<close> when the label \<open>col\<close> occurs once among the labels, and a
  \<open>DataFrame\<close> when it repeats (cleaning can make two labels equal). \<open>series_at\<close> gives
  the position of the one column, or \<open>None\<close> for a repeated label; the script then calls a
  \<open>Series\<close> method on a \<open>DataFrame\<close>, which raises \<open>AttributeError\<close>.
\<close>

fun index_of :: "string list \<Rightarrow> string \<Rightarrow> nat" where
  "index_of [] col = 0"
| "index_of (c # cs) col = (if c = col then 0 else Suc (index_of cs col))"

definition series_at :: "frame \<Rightarrow> string \<Rightarrow> nat option" where
  "series_at df col =
     (if count_list (columns df) col = 1 then Some (index_of (columns df) col) else None)"

text \<open>The values of the column at position \<open>i\<close>, row by row.\<close>

definition series :: "frame \<Rightarrow> nat \<Rightarrow> cell list" where
  "series df i = map (\<lambda>r. r ! i) (rows df)"

text \<open>\<^verbatim>\<open>Series.dropna()\<close>\<close>

definition dropna :: "cell list \<Rightarrow> cell list" where
  "dropna vs = filter (\<lambda>v. \<not> isnull v) vs"

text \<open>\<^verbatim>\<open>Series.unique()\<close>: the distinct values, each at its first occurrence.\<close>

fun unique :: "cell list \<Rightarrow> cell list" where
  "unique [] = []"
| "unique (v # vs) = v # unique (removeAll v vs)"

text \<open>\<^verbatim>\<open>df[df[col].isin(selected)]\<close>: the rows whose cell at \<open>i\<close> is one of \<open>selected\<close>.\<close>

definition isin_rows :: "nat \<Rightarrow> cell list \<Rightarrow> frame \<Rightarrow> frame" where
  "isin_rows i selected df = df\<lparr>rows := filter (\<lambda>r. r ! i \<in> set selected) (rows df)\<rparr>"

text \<open>
  \<^verbatim>\<open>pd.to_datetime(df[col], errors="coerce")\<close> written back to the column. The parser
  itself belongs to pandas and is a parameter \<open>to_datetime\<close>, taken value by value: the
  timestamp a value parses to, or \<open>None\<close> for a value that does not parse, which
  \<open>coerce\<close> turns into a missing value. The column's dtype becomes \<open>datetime64\<close>.
\<close>

definition coerce :: "(cell \<Rightarrow> int option) \<Rightarrow> cell \<Rightarrow> cell" where
  "coerce to_datetime v = (case to_datetime v of None \<Rightarrow> NaN | Some t \<Rightarrow> Timestamp t)"

definition datetime_column :: "(cell \<Rightarrow> int option) \<Rightarrow> nat \<Rightarrow> frame \<Rightarrow> frame" where
  "datetime_column to_datetime i df =
     df\<lparr>dtypes := (dtypes df)[i := Datetime64],
        rows := map (\<lambda>r. r[i := coerce to_datetime (r ! i)]) (rows df)\<rparr>"

text \<open>\<^verbatim>\<open>df.dropna(subset=[col])\<close>\<close>

definition dropna_subset :: "nat \<Rightarrow> frame \<Rightarrow> frame" where
  "dropna_subset i df = df\<lparr>rows := filter (\<lambda>r. \<not> isnull (r ! i)) (rows df)\<rparr>"

text \<open>
  The position of a value on the scale of its column: a number is itself, a timestamp its
  position on the time line, a boolean 0 or 1. A missing value has none (every comparison
  with it is false); neither has a string, which no column that is compared here holds
  (an \<open>object\<close> column has been through \<open>to_datetime\<close> by then).
\<close>

fun key :: "cell \<Rightarrow> rat option" where
  "key (Num x) = Some x"
| "key (Timestamp t) = Some (of_int t)"
| "key (Flag b) = Some (if b then 1 else 0)"
| "key NaN = None"
| "key (Str s) = None"

fun keys :: "cell list \<Rightarrow> rat list" where
  "keys [] = []"
| "keys (v # vs) = (case key v of None \<Rightarrow> keys vs | Some k \<Rightarrow> k # keys vs)"

text \<open>\<^verbatim>\<open>Series.min()\<close> and \<^verbatim>\<open>Series.max()\<close>: missing values are skipped; an empty series has none.\<close>

definition series_min :: "cell list \<Rightarrow> rat option" where
  "series_min vs = (case keys vs of [] \<Rightarrow> None | k # ks \<Rightarrow> Some (fold min ks k))"

definition series_max :: "cell list \<Rightarrow> rat option" where
  "series_max vs = (case keys vs of [] \<Rightarrow> None | k # ks \<Rightarrow> Some (fold max ks k))"

text \<open>\<^verbatim>\<open>df[(df[col] >= lo) & (df[col] <= hi)]\<close>\<close>

definition in_range :: "rat \<Rightarrow> rat \<Rightarrow> cell \<Rightarrow> bool" where
  "in_range lo hi v = (case key v of None \<Rightarrow> False | Some k \<Rightarrow> lo \<le> k \<and> k \<le> hi)"

definition between_rows :: "nat \<Rightarrow> rat \<Rightarrow> rat \<Rightarrow> frame \<Rightarrow> frame" where
  "between_rows i lo hi df = df\<lparr>rows := filter (\<lambda>r. in_range lo hi (r ! i)) (rows df)\<rparr>"

text \<open>\<^verbatim>\<open>df.select_dtypes(include=['float64', 'int64']).columns\<close>\<close>

definition numeric_columns :: "frame \<Rightarrow> string list" where
  "numeric_columns df =
     map fst (filter (\<lambda>(c, t). t = Float64 \<or> t = Int64) (zip (columns df) (dtypes df)))"

section \<open>The session\<close>

text \<open>
  The script's variable \<open>df\<close> is a reference to a \<open>DataFrame\<close> object, and the script
  both rebinds it to new objects (\<^verbatim>\<open>df = df[...]\<close>) and changes the object it refers to
  (\<^verbatim>\<open>df[col] = ...\<close>, \<^verbatim>\<open>inplace=True\<close>). The session keeps the objects in a store,
  the reference \<open>df\<close>, what has been put on the page so far, and the exception that is
  propagating, if any.
\<close>

datatype error = AttributeError | StreamlitAPIException | ValueError

record point =
  px :: "cell option"
  py :: "cell option"
  pcolor :: "cell option"
  ptitle :: "cell option"
  phover :: "cell list"

datatype element =
    Multiselect string "cell list" "cell list"
  | Slider string "rat option" "rat option"
  | Plotly_chart "point list"
  | Map "(cell \<times> cell) list"
  | Dataframe "cell list list"
  | Error_message error

record session =
  store :: "nat \<Rightarrow> frame"
  fresh :: nat
  df :: nat
  page :: "element list"
  raised :: "error option"

text \<open>The object \<open>df\<close> refers to.\<close>

definition cur :: "session \<Rightarrow> frame" where
  "cur s = store s (df s)"

text \<open>\<^verbatim>\<open>df = <new frame>\<close>: the frame is a new object and \<open>df\<close> is rebound to it.\<close>

definition rebind :: "frame \<Rightarrow> session \<Rightarrow> session" where
  "rebind f s = s\<lparr>store := (store s)(fresh s := f), df := fresh s, fresh := Suc (fresh s)\<rparr>"

text \<open>A change of the object \<open>df\<close> refers to, in place: every alias sees it.\<close>

definition in_place :: "(frame \<Rightarrow> frame) \<Rightarrow> session \<Rightarrow> session" where
  "in_place g s = s\<lparr>store := (store s)(df s := g (cur s))\<rparr>"

definition render :: "element \<Rightarrow> session \<Rightarrow> session" where
  "render e s = s\<lparr>page := page s @ [e]\<rparr>"

definition raise :: "error \<Rightarrow> session \<Rightarrow> session" where
  "raise e s = s\<lparr>raised := Some e\<rparr>"



section \<open>Sidebar filters (dashboard-filters.py, lines 44 to 70)\<close>

text \<open>
  What the widgets return in this run of the script: the selections of the three
  multiselects and the two handles of the slider, on the scale of the time column. A
  sidebar widget is taken to return its selection whatever it was offered; whether
  Streamlit itself rejects what a widget is offered is not part of the model.
\<close>

record filter_spec =
  selected_income :: "cell list"
  selected_gender :: "cell list"
  selected_neigh :: "cell list"
  selected_range :: "rat \<times> rat"

text \<open>
  The income, gender and neighbourhood blocks are the same statements over different
  names; \<open>possible\<close> is the block's candidate list, \<open>selected\<close> what its multiselect
  returns. The multiselect is offered the distinct non-missing values of the column, all
  of them selected by default.
\<close>

definition categorical_filter ::
  "string \<Rightarrow> string list \<Rightarrow> cell list \<Rightarrow> session \<Rightarrow> session" where
  "categorical_filter label possible selected s =
     (case possible of
        [] \<Rightarrow> s
      | col # _ \<Rightarrow>
          (case series_at (cur s) col of
             None \<Rightarrow> raise AttributeError s
           | Some i \<Rightarrow>
               let options = unique (dropna (series (cur s) i));
                   s1 = render (Multiselect label options options) s
               in rebind (isin_rows i selected (cur s1)) s1))"

definition time_filter ::
  "(cell \<Rightarrow> int option) \<Rightarrow> string list \<Rightarrow> rat \<times> rat \<Rightarrow> session \<Rightarrow> session" where
  "time_filter to_datetime possible selected s =
     (case possible of
        [] \<Rightarrow> s
      | time_col # _ \<Rightarrow>
          (case series_at (cur s) time_col of
             None \<Rightarrow> raise AttributeError s
           | Some i \<Rightarrow>
               let s1 = (if dtypes (cur s) ! i = Object
                         then in_place (datetime_column to_datetime i) s else s);
                   s2 = rebind (dropna_subset i (cur s1)) s1;
                   min_date = series_min (series (cur s2) i);
                   max_date = series_max (series (cur s2) i);
                   s3 = render (Slider ''Select Time Range'' min_date max_date) s2
               in rebind (between_rows i (fst selected) (snd selected) (cur s3)) s3))"




section \<open>The filtered table in closed form\<close>




text \<open>What a categorical block and the time block do to the frame when they do not raise.\<close>

definition cat_step :: "string list \<Rightarrow> cell list \<Rightarrow> frame \<Rightarrow> frame" where
  "cat_step possible selected f =
     (case possible of [] \<Rightarrow> f | col # _ \<Rightarrow> isin_rows (index_of (columns f) col) selected f)"

definition time_step ::
  "(cell \<Rightarrow> int option) \<Rightarrow> string list \<Rightarrow> rat \<times> rat \<Rightarrow> frame \<Rightarrow> frame" where
  "time_step to_datetime possible selected f =
     (case possible of [] \<Rightarrow> f
      | col # _ \<Rightarrow>
          let i = index_of (columns f) col in
          between_rows i (fst selected) (snd selected)
            (dropna_subset i
              (if dtypes f ! i = Object then datetime_column to_datetime i f else f)))"

definition filtered :: "(cell \<Rightarrow> int option) \<Rightarrow> filter_spec \<Rightarrow> frame \<Rightarrow> frame" where
  "filtered to_datetime F f =
     (let cols = columns f in
      time_step to_datetime (possible_time cols) (selected_range F)
        (cat_step (possible_neigh cols) (selected_neigh F)
          (cat_step (possible_gender cols) (selected_gender F)
            (cat_step (possible_income cols) (selected_income F) f))))"


text \<open>
  The value the time filter compares: the parsed value when the column's dtype is
  \<open>object\<close>, the value as it is otherwise.
\<close>

definition time_value :: "(cell \<Rightarrow> int option) \<Rightarrow> frame \<Rightarrow> nat \<Rightarrow> cell \<Rightarrow> cell" where
  "time_value to_datetime T i v = (if dtypes T ! i = Object then coerce to_datetime v else v)"


text \<open>The row as the filtered table holds it: its time cell replaced by the compared value.\<close>

definition time_cast ::
  "(cell \<Rightarrow> int option) \<Rightarrow> string list \<Rightarrow> frame \<Rightarrow> cell list \<Rightarrow> cell list" where
  "time_cast to_datetime possible T r =
     (case possible of [] \<Rightarrow> r
      | col # _ \<Rightarrow>
          let i = index_of (columns T) col in r[i := time_value to_datetime T i (r ! i)])"





text \<open>What a categorical block and the time block put on the page when they do not raise.\<close>

definition cat_widget :: "string \<Rightarrow> string list \<Rightarrow> frame \<Rightarrow> element list" where
  "cat_widget label possible f =
     (case possible of [] \<Rightarrow> []
      | col # _ \<Rightarrow>
          let options = unique (dropna (series f (index_of (columns f) col)))
          in [Multiselect label options options])"



fun range_offered :: "element list \<Rightarrow> (rat option \<times> rat option) option" where
  "range_offered [] = None"
| "range_offered (Slider l lo hi # es) = Some (lo, hi)"
| "range_offered (e # es) = range_offered es"

section \<open>Aliasing of the loaded table\<close>



text \<open>The blocks of the sidebar.\<close>

definition filter_block :: "(session \<Rightarrow> session) \<Rightarrow> bool" where
  "filter_block b =
     ((\<exists>l po se. b = categorical_filter l po se) \<or> (\<exists>p po se. b = time_filter p po se))"

section \<open>Chart (dashboard-filters.py, lines 80 to 92; dashboard.py, lines 36 to 49)\<close>

text \<open>
  \<^verbatim>\<open>st.selectbox(label, options, index=index)\<close>. Streamlit raises when a non-empty option
  list has no position \<open>index\<close>; it returns no value for an empty list, and otherwise the
  option the user chose, which is the option at \<open>index\<close> until the user has chosen.
\<close>

definition selectbox :: "string list \<Rightarrow> nat \<Rightarrow> nat \<Rightarrow> error + string option" where
  "selectbox options index chosen =
     (if options = [] then Inr None
      else if \<not> index < length options then Inl StreamlitAPIException
      else Inr (Some (options ! (if chosen < length options then chosen else index))))"

text \<open>
  \<^verbatim>\<open>px.scatter(df, x=..., y=..., color=..., hover_name=..., hover_data=...)\<close>, as far
  as the scripts rely on it: plotly makes one point per row of the frame it is given, with
  the row's values in the chosen columns, the value of the \<open>hover_name\<close> column as the
  title of the hover box and the values of the \<open>hover_data\<close> columns in the box; it rejects
  a label that is not exactly one column of the frame. It accepts a column of any dtype.
  An axis for which no column was chosen is passed through as absent.
\<close>

definition axis :: "frame \<Rightarrow> string option \<Rightarrow> error + nat option" where
  "axis data_frame a =
     (case a of
        None \<Rightarrow> Inr None
      | Some col \<Rightarrow> (case series_at data_frame col of None \<Rightarrow> Inl ValueError | Some i \<Rightarrow> Inr (Some i)))"

definition px_scatter ::
  "frame \<Rightarrow> string option \<Rightarrow> string option \<Rightarrow> string option \<Rightarrow> string option \<Rightarrow>
   string list \<Rightarrow> error + point list" where
  "px_scatter data_frame x y color hover_name hover_data =
     (case axis data_frame x of Inl e \<Rightarrow> Inl e | Inr xi \<Rightarrow>
      case axis data_frame y of Inl e \<Rightarrow> Inl e | Inr yi \<Rightarrow>
      case axis data_frame color of Inl e \<Rightarrow> Inl e | Inr ci \<Rightarrow>
      case axis data_frame hover_name of Inl e \<Rightarrow> Inl e | Inr hi \<Rightarrow>
        if \<not> list_all (\<lambda>col. series_at data_frame col \<noteq> None) hover_data then Inl ValueError
        else
          Inr (map (\<lambda>r. \<lparr>px = map_option (\<lambda>i. r ! i) xi, py = map_option (\<lambda>i. r ! i) yi,
                          pcolor = map_option (\<lambda>i. r ! i) ci,
                          ptitle = map_option (\<lambda>i. r ! i) hi,
                          phover = map (\<lambda>col. r ! index_of (columns data_frame) col) hover_data\<rparr>)
                 (rows data_frame)))"

text \<open>The positions the user has chosen in the three selectors.\<close>

record chart_spec =
  x_index :: nat
  y_index :: nat
  color_index :: nat

text \<open>
  dashboard-filters.py: both axes are chosen among the \<open>float64\<close> and \<open>int64\<close> columns,
  the colour among the mapped categorical role columns, \<open>none\<close> standing for a role
  that is not mapped.
\<close>

definition build_chart ::
  "string list \<Rightarrow> string list \<Rightarrow> string list \<Rightarrow> chart_spec \<Rightarrow> frame \<Rightarrow> error + point list" where
  "build_chart p_income p_gender p_neigh C table =
     (let numeric = numeric_columns table in
      case selectbox numeric 0 (x_index C) of Inl e \<Rightarrow> Inl e | Inr x_axis \<Rightarrow>
      case selectbox numeric 1 (y_index C) of Inl e \<Rightarrow> Inl e | Inr y_axis \<Rightarrow>
      case selectbox
             [case p_income of [] \<Rightarrow> ''none'' | income_col # _ \<Rightarrow> income_col,
              case p_gender of [] \<Rightarrow> ''none'' | gender_col # _ \<Rightarrow> gender_col,
              case p_neigh of [] \<Rightarrow> ''none'' | neigh_col # _ \<Rightarrow> neigh_col]
             0 (color_index C) of Inl e \<Rightarrow> Inl e | Inr color_by \<Rightarrow>
        px_scatter table x_axis y_axis (if color_by = Some ''none'' then None else color_by)
          None (columns table))"


section \<open>Geographic map (dashboard-filters.py, lines 95 to 99)\<close>

text \<open>
  The frame handed to \<^verbatim>\<open>st.map\<close>: the two columns of every row of the frame, when both
  candidate lists are non-empty; no map otherwise. A label is taken at its first position.
\<close>

definition build_points :: "frame \<Rightarrow> (cell \<times> cell) list" where
  "build_points table =
     (case lat_cols (columns table) of
        [] \<Rightarrow> []
      | lat # _ \<Rightarrow>
          (case lon_cols (columns table) of
             [] \<Rightarrow> []
           | lon # _ \<Rightarrow>
               map (\<lambda>r. (r ! index_of (columns table) lat, r ! index_of (columns table) lon))
                 (rows table)))"

section \<open>One run of dashboard-filters.py\<close>


definition chart_step ::
  "string list \<Rightarrow> string list \<Rightarrow> string list \<Rightarrow> chart_spec \<Rightarrow> session \<Rightarrow> session" where
  "chart_step p_income p_gender p_neigh C s =
     (case build_chart p_income p_gender p_neigh C (cur s) of
        Inl e \<Rightarrow> raise e s
      | Inr fig \<Rightarrow> render (Plotly_chart fig) s)"





section \<open>Worked examples\<close>







text \<open>A table with coordinates, two of its rows unfit for a map.\<close>

definition places :: frame where
  "places =
     \<lparr>columns = [''name'', ''latitude'', ''longitude''], dtypes = [Object, Float64, Object],
      rows = [[Str ''a'', Num 19.4, Num (- 99.1)],
              [Str ''b'', Num 100, Num 200],
              [Str ''c'', NaN, Str ''west'']]\<rparr>"

section \<open>Properties of role inference\<close>

lemma contains_sublist: "contains t s = sublist t s"
  by (induction s) (auto simp: sublist_Cons_right)

lemma lower_char_idem: "lower_char (lower_char c) = lower_char c"
proof -
  have "of_char (char_of (of_char c + 32 :: nat)) = (of_char c + 32 :: nat)" if "(of_char c :: nat) \<le> 90"
    using that by simp
  then show ?thesis
    unfolding lower_char_def by auto
qed

lemma lower_normalize: "lower (normalize c) = normalize c"
  by (simp add: normalize_def lower_def lower_char_idem)

lemma first_of_filter:
  "(first_of (filter P xs) = None \<and> \<not> list_ex P xs) \<or>
   (\<exists>i<length xs. first_of (filter P xs) = Some (xs ! i) \<and> P (xs ! i) \<and> (\<forall>j<i. \<not> P (xs ! j)))"
proof (induction xs)
  case Nil
  then show ?case by (simp add: first_of_def)
next
  case (Cons x xs)
  show ?case
  proof (cases "P x")
    case True
    then show ?thesis by (auto simp: first_of_def)
  next
    case False
    from Cons show ?thesis
    proof
      assume "first_of (filter P xs) = None \<and> \<not> list_ex P xs"
      with False show ?thesis by simp
    next
      assume "\<exists>i<length xs. first_of (filter P xs) = Some (xs ! i) \<and> P (xs ! i) \<and> (\<forall>j<i. \<not> P (xs ! j))"
      then obtain i where i: "i < length xs" "first_of (filter P xs) = Some (xs ! i)" "P (xs ! i)" "\<forall>j<i. \<not> P (xs ! j)"
        by blast
      have "\<forall>j<Suc i. \<not> P ((x # xs) ! j)"
        using False i(4) by (auto simp: less_Suc_eq_0_disj)
      with i False have "Suc i < length (x # xs) \<and> first_of (filter P (x # xs)) = Some ((x # xs) ! Suc i) \<and> P ((x # xs) ! Suc i) \<and> (\<forall>j<Suc i. \<not> P ((x # xs) ! j))"
        by simp
      then show ?thesis by blast
    qed
  qed
qed

lemma first_of_normalized:
  "(first_of (filter P (map normalize xs)) = None \<and> \<not> list_ex (\<lambda>c. P (normalize c)) xs) \<or>
   (\<exists>i<length xs. first_of (filter P (map normalize xs)) = Some (normalize (xs ! i))
       \<and> P (normalize (xs ! i)) \<and> (\<forall>j<i. \<not> P (normalize (xs ! j))))"
  using first_of_filter [of P "map normalize xs"]
  by (auto simp: list_ex_iff)

lemma candidates_by_trigger:
  "possible_income cols = filter (has_trigger Income) cols"
  "possible_gender cols = filter (has_trigger Gender) cols"
  "possible_neigh cols = filter (has_trigger Region) cols"
  "possible_time cols = filter (has_trigger Time) cols"
  unfolding possible_income_def possible_gender_def possible_neigh_def possible_time_def
  by (rule filter_cong, simp, simp add: has_trigger_def contains_sublist)+

lemma geo_candidates_by_trigger:
  "lat_cols (map normalize xs) = filter (has_trigger Latitude) (map normalize xs)"
  "lon_cols (map normalize xs) = filter (has_trigger Longitude) (map normalize xs)"
  unfolding lat_cols_def lon_cols_def
  by (rule filter_cong, simp, auto simp: has_trigger_def contains_sublist lower_normalize)+

lemma infer_roles_filter:
  "infer_roles T \<rho> = first_of (filter (has_trigger \<rho>) (map normalize (columns T)))"
  by (cases \<rho>) (simp_all add: infer_roles_def cleaning_def candidates_by_trigger geo_candidates_by_trigger)

text \<open>
  C1. For every table and every role, \<open>infer_roles\<close> either assigns no column, and then
  no label of the table has, once normalized, a trigger substring of the role; or it
  assigns the normalized label of the first column, in the table's column order, whose
  normalized label contains one of the role's trigger substrings.
\<close>

theorem infer_roles_first_match:
  "(infer_roles T \<rho> = None \<and> \<not> list_ex (\<lambda>c. has_trigger \<rho> (normalize c)) (columns T)) \<or>
   (\<exists>i<length (columns T).
       infer_roles T \<rho> = Some (normalize (columns T ! i))
     \<and> has_trigger \<rho> (normalize (columns T ! i))
     \<and> (\<forall>j<i. \<not> has_trigger \<rho> (normalize (columns T ! j))))"
  unfolding infer_roles_filter by (rule first_of_normalized)

theorem infer_roles_first_match_witness:
  "(\<exists>i<length [''Region Code'', '' Income Group'', ''Household INCOME''].
       infer_roles \<lparr>columns = [''Region Code'', '' Income Group'', ''Household INCOME''],
                    dtypes = [Int64, Object, Float64], rows = []\<rparr> Income
         = Some (normalize ([''Region Code'', '' Income Group'', ''Household INCOME''] ! i))
     \<and> i = 1)
   \<and> infer_roles \<lparr>columns = [''Region Code'', '' Income Group'', ''Household INCOME''],
                    dtypes = [Int64, Object, Float64], rows = []\<rparr> Gender = None"
proof -
  let ?cs = "[''Region Code'', '' Income Group'', ''Household INCOME'']"
  let ?T = "\<lparr>columns = ?cs, dtypes = [Int64, Object, Float64], rows = []\<rparr>"
  have n: "map normalize ?cs = [''region_code'', ''income_group'', ''household_income'']"
    by code_simp
  have t: "\<not> has_trigger Income ''region_code''" "has_trigger Income ''income_group''"
    "\<not> has_trigger Gender ''region_code''" "\<not> has_trigger Gender ''income_group''"
    "\<not> has_trigger Gender ''household_income''"
    by (simp_all add: has_trigger_def flip: contains_sublist)
  have a: "\<exists>i<length ?cs. infer_roles ?T Income = Some (normalize (?cs ! i)) \<and> i = 1"
    using infer_roles_first_match [of ?T Income] n t
    by (auto simp: less_Suc_eq_0_disj numeral_3_eq_3)
  have b: "infer_roles ?T Gender = None"
    using infer_roles_first_match [of ?T Gender] n t
    by (auto simp: less_Suc_eq_0_disj numeral_3_eq_3)
  from a b show ?thesis by blast
qed

section \<open>The session and the filtered table\<close>

lemma cur_rebind [simp]: "cur (rebind f s) = f"
  by (simp add: cur_def rebind_def)

lemma raised_rebind [simp]: "raised (rebind f s) = raised s"
  by (simp add: rebind_def)

lemma page_rebind [simp]: "page (rebind f s) = page s"
  by (simp add: rebind_def)

lemma cur_render [simp]: "cur (render e s) = cur s"
  by (simp add: cur_def render_def)

lemma raised_render [simp]: "raised (render e s) = raised s"
  by (simp add: render_def)

lemma page_render [simp]: "page (render e s) = page s @ [e]"
  by (simp add: render_def)

lemma cur_in_place [simp]: "cur (in_place g s) = g (cur s)"
  by (simp add: cur_def in_place_def)

lemma raised_in_place [simp]: "raised (in_place g s) = raised s"
  by (simp add: in_place_def)

lemma page_in_place [simp]: "page (in_place g s) = page s"
  by (simp add: in_place_def)

lemma raised_raise [simp]: "raised (raise e s) = Some e"
  by (simp add: raise_def)

lemma columns_steps [simp]:
  "columns (isin_rows i sel f) = columns f"
  "columns (datetime_column p i f) = columns f"
  "columns (dropna_subset i f) = columns f"
  "columns (between_rows i lo hi f) = columns f"
  by (simp_all add: isin_rows_def datetime_column_def dropna_subset_def between_rows_def)

lemma columns_cat_step [simp]: "columns (cat_step possible sel f) = columns f"
  by (simp add: cat_step_def split: list.splits)












lemma dtypes_cat_step [simp]: "dtypes (cat_step possible sel f) = dtypes f"
  by (simp add: cat_step_def isin_rows_def split: list.splits)





lemma columns_filtered [simp]: "columns (filtered p F T) = columns T"
  by (simp add: filtered_def Let_def time_step_def split: list.splits)

section \<open>The conjunction of the active filters\<close>





section \<open>Narrowing the filters\<close>








section \<open>Filtering twice\<close>



lemma length_time_cast [simp]: "length (time_cast p possible T r) = length r"
  by (simp add: time_cast_def Let_def split: list.splits)








section \<open>The time filter\<close>











lemma slider_in_cat_widget [simp]: "Slider l a b \<notin> set (cat_widget label possible f)"
  by (simp add: cat_widget_def Let_def split: list.splits)





section \<open>The loaded table after the filters\<close>


lemma fresh_categorical_filter: "fresh s \<le> fresh (categorical_filter label possible sel s)"
  by (auto simp: categorical_filter_def rebind_def render_def raise_def Let_def
      split: list.splits option.splits)





lemma categorical_filter_skip [simp]: "categorical_filter label [] sel s = s"
  by (simp add: categorical_filter_def)





lemma filter_block_simps [simp]:
  "filter_block (categorical_filter l po se)" "filter_block (time_filter p po rg)"
  unfolding filter_block_def by blast+









section \<open>What the widgets are offered\<close>

lemma set_unique [simp]: "set (unique vs) = set vs"
  by (induction vs rule: unique.induct) auto

lemma distinct_unique [simp]: "distinct (unique vs)"
  by (induction vs rule: unique.induct) auto

lemma set_dropna [simp]: "set (dropna vs) = set vs - {NaN}"
  by (auto simp: dropna_def isnull_def)

lemma keys_dropna [simp]: "keys (dropna vs) = keys vs"
  by (induction vs) (auto simp: dropna_def isnull_def split: option.splits)

lemma series_dropna [simp]:
  "series_min (dropna vs) = series_min vs" "series_max (dropna vs) = series_max vs"
  by (simp_all add: series_min_def series_max_def)


lemma range_offered_cat_widget [simp]:
  "range_offered (cat_widget l possible f @ es) = range_offered es"
  by (simp add: cat_widget_def Let_def split: list.splits)
















section \<open>The points of the map\<close>

lemma first_of_eqs:
  "first_of xs = None \<longleftrightarrow> xs = []" "first_of xs = Some x \<longleftrightarrow> (\<exists>ys. xs = x # ys)"
  by (auto simp: first_of_def split: list.splits)

text \<open>
  C5, as amended. For a frame with the cleaned labels of a table: when the latitude role
  or the longitude role of the table is unmapped, \<open>build_points\<close> gives no points; when
  both are mapped it gives one pair per row of the frame, in row order, holding the row's
  cells in the two mapped columns as they are. No row is dropped.
\<close>

theorem build_points_keeps_every_row:
  assumes "columns D = columns (cleaning T)"
  shows "(infer_roles T Latitude = None \<or> infer_roles T Longitude = None \<longrightarrow> build_points D = [])
       \<and> (\<forall>lat lon. infer_roles T Latitude = Some lat \<and> infer_roles T Longitude = Some lon \<longrightarrow>
            length (build_points D) = length (rows D) \<and>
            (\<forall>k<length (rows D).
               build_points D ! k =
                 (rows D ! k ! index_of (columns D) lat, rows D ! k ! index_of (columns D) lon)))"
  using assms
  by (auto simp: infer_roles_def Let_def first_of_eqs build_points_def split: list.splits)

theorem build_points_keeps_every_row_witness:
  "columns places = columns (cleaning places)
   \<and> infer_roles places Latitude = Some ''latitude''
   \<and> infer_roles places Longitude = Some ''longitude''
   \<and> length (build_points places) = 3
   \<and> build_points places ! 1 = (Num 100, Num 200)"
proof -
  have h: "columns places = columns (cleaning places)"
    by code_simp
  have r: "infer_roles places Latitude = Some ''latitude''"
    "infer_roles places Longitude = Some ''longitude''"
    by code_simp+
  have v: "length (rows places) = 3" "1 < length (rows places)"
    "(rows places ! 1 ! index_of (columns places) ''latitude'',
      rows places ! 1 ! index_of (columns places) ''longitude'') = (Num 100, Num 200)"
    by code_simp+
  from build_points_keeps_every_row [OF h] r v h show ?thesis
    by auto
qed

text \<open>
  C5 as stated fails: a row with latitude 100 and longitude 200, and a row with a missing
  latitude and a text longitude, are both among the points handed to the map.
\<close>

theorem build_points_drops_nothing_counterexample:
  "lat_cols (columns places) = [''latitude''] \<and> lon_cols (columns places) = [''longitude'']
   \<and> build_points places =
       [(Num 19.4, Num (- 99.1)), (Num 100, Num 200), (NaN, Str ''west'')]"
  by code_simp

section \<open>The points of the chart\<close>













section \<open>A failing chart\<close>

lemma store_chart_step [simp]:
  "store (chart_step a b c C s) = store s" "df (chart_step a b c C s) = df s"
  "fresh (chart_step a b c C s) = fresh s"
  by (simp_all add: chart_step_def raise_def render_def split: sum.splits)



end
